theory Spec2Isabelle
  imports Main
begin

section \<open>Values of the parsed XML tree\<close>

text \<open>
  The extraction code works on the tree that xml2js builds with
  \<^verbatim>\<open>explicitArray: false, mergeAttrs: true, charkey: "#"\<close>: an element without
  attributes and children is a string, any other element is an object whose keys are
  its attribute and child names (and \<^verbatim>\<open>#\<close> for its text), and a child name that occurs
  several times is an array.  A missing property reads as \<^verbatim>\<open>undefined\<close>.

  Strings are lists of code units; only code units below 256 are modelled.
\<close>

datatype jsval =
    JUndef
  | JStr string
  | JArr "jsval list"
  | JObj "(string \<times> jsval) list"

datatype jserr = TypeError | IOError | ParseError

text \<open>Sequencing of computations that may throw.\<close>

definition thenE :: "jserr + 'a \<Rightarrow> ('a \<Rightarrow> jserr + 'b) \<Rightarrow> jserr + 'b" where
  "thenE m f = (case m of Inl e \<Rightarrow> Inl e | Inr x \<Rightarrow> f x)"

text \<open>
  \<^verbatim>\<open>v[k]\<close> for a value \<open>v\<close> that is not \<^verbatim>\<open>undefined\<close> and a key \<open>k\<close> that is one of
  the element and attribute names the code reads: none of them is a property of
  \<^verbatim>\<open>String.prototype\<close>, \<^verbatim>\<open>Array.prototype\<close> or \<^verbatim>\<open>Object.prototype\<close>, so only an
  object's own keys answer.
\<close>

fun getp :: "jsval \<Rightarrow> string \<Rightarrow> jsval" where
  "getp (JObj kvs) k = (case map_of kvs k of Some v \<Rightarrow> v | None \<Rightarrow> JUndef)"
| "getp _ k = JUndef"

text \<open>\<^verbatim>\<open>v.k\<close>: throws a TypeError on \<^verbatim>\<open>undefined\<close>.\<close>

definition dot :: "jsval \<Rightarrow> string \<Rightarrow> jserr + jsval" where
  "dot v k = (if v = JUndef then Inl TypeError else Inr (getp v k))"

text \<open>\<^verbatim>\<open>v?.k\<close>: \<^verbatim>\<open>undefined\<close> on \<^verbatim>\<open>undefined\<close>.\<close>

definition oprop :: "jsval \<Rightarrow> string \<Rightarrow> jsval" where
  "oprop v k = (if v = JUndef then JUndef else getp v k)"

text \<open>\<^verbatim>\<open>v[0]\<close> for a value that is not \<^verbatim>\<open>undefined\<close>, and \<^verbatim>\<open>v?.[0]\<close>.\<close>

fun idx0 :: "jsval \<Rightarrow> jsval" where
  "idx0 (JArr xs) = (case xs of [] \<Rightarrow> JUndef | x # _ \<Rightarrow> x)"
| "idx0 (JStr s) = (case s of [] \<Rightarrow> JUndef | c # _ \<Rightarrow> JStr [c])"
| "idx0 (JObj kvs) = getp (JObj kvs) ''0''"
| "idx0 JUndef = JUndef"

definition oidx0 :: "jsval \<Rightarrow> jsval" where
  "oidx0 v = (if v = JUndef then JUndef else idx0 v)"

text \<open>Truthiness, \<^verbatim>\<open>a ?? b\<close> and \<^verbatim>\<open>Array.isArray\<close>.\<close>

fun truthy :: "jsval \<Rightarrow> bool" where
  "truthy JUndef = False"
| "truthy (JStr s) = (s \<noteq> [])"
| "truthy (JArr _) = True"
| "truthy (JObj _) = True"

definition nc :: "jsval \<Rightarrow> jsval \<Rightarrow> jsval" where
  "nc v d = (if v = JUndef then d else v)"

fun isArray :: "jsval \<Rightarrow> bool" where
  "isArray (JArr _) = True"
| "isArray _ = False"

section \<open>Text sanitizer\<close>

text \<open>
  \<^verbatim>\<open>htmlString.replace(/<[^>]*>?/gm, "")\<close>.  A match starts at a \<^verbatim>\<open><\<close>, takes every
  following code unit that is not \<^verbatim>\<open>>\<close> and then the \<^verbatim>\<open>>\<close> if there is one;
  \<open>skipTag\<close> is what is left of the input behind a match whose \<^verbatim>\<open><\<close> was just read.
\<close>

definition skipTag :: "string \<Rightarrow> string" where
  "skipTag cs = (case dropWhile (\<lambda>c. c \<noteq> CHR ''>'') cs of [] \<Rightarrow> [] | _ # r \<Rightarrow> r)"

lemma length_skipTag: "length (skipTag cs) \<le> length cs"
proof (cases "dropWhile (\<lambda>c. c \<noteq> CHR ''>'') cs")
  case Nil
  show ?thesis
    unfolding skipTag_def Nil by simp
next
  case (Cons x r)
  have "length (x # r) \<le> length cs"
    unfolding Cons [symmetric] by (rule length_dropWhile_le)
  then show ?thesis
    unfolding skipTag_def Cons by simp
qed

function replaceTags :: "string \<Rightarrow> string" where
  "replaceTags [] = []"
| "replaceTags (c # cs) =
     (if c = CHR ''<'' then replaceTags (skipTag cs) else c # replaceTags cs)"
  by pat_completeness auto
termination
  by (relation "measure length") (auto simp: length_skipTag less_Suc_eq_le)

text \<open>
  \<^verbatim>\<open>String.prototype.trim\<close>: the white space and line terminators of ECMAScript
  among the code units below 256 are TAB, LF, VT, FF, CR, SP and NBSP.
\<close>

definition isWhiteSpace :: "char \<Rightarrow> bool" where
  "isWhiteSpace c = ((of_char c :: nat) \<in> {9, 10, 11, 12, 13, 32, 160})"

definition trim :: "string \<Rightarrow> string" where
  "trim s = rev (dropWhile isWhiteSpace (rev (dropWhile isWhiteSpace s)))"

text \<open>
  \<^verbatim>\<open>stripHtmlTags\<close>.  A falsy argument gives the empty string; a truthy value that is
  not a string has no \<^verbatim>\<open>replace\<close> method, and the call throws.
\<close>

definition stripHtmlTags :: "jsval \<Rightarrow> jserr + string" where
  "stripHtmlTags htmlString =
     (if \<not> truthy htmlString then Inr ''''
      else case htmlString of
             JStr s \<Rightarrow> Inr (trim (replaceTags s))
           | _ \<Rightarrow> Inl TypeError)"

section \<open>Item classifier and extractor\<close>

text \<open>
  The question object built for one item.  Its fields hold JavaScript values:
  \<open>correctAnswer\<close> is a string or an object \<^verbatim>\<open>{id, text}\<close>.  The fields \<^verbatim>\<open>identifier\<close> and \<^verbatim>\<open>text\<close> of a
  choice are called \<open>optionIdentifier\<close> and \<open>optionText\<close> here.
\<close>

record choice =
  optionIdentifier :: jsval
  optionText :: jsval

record question =
  itemIdentifier :: jsval
  questionText :: jsval
  responseType :: string
  options :: "choice list"
  correctAnswer :: jsval
  score :: jsval

fun elems :: "jsval \<Rightarrow> jsval list" where
  "elems (JArr xs) = xs"
| "elems _ = []"

text \<open>
  \<^verbatim>\<open>xs.find(p)\<close> with a callback that may throw: the first element on which the
  callback is true, \<^verbatim>\<open>undefined\<close> when there is none.
\<close>

fun findE :: "(jsval \<Rightarrow> jserr + bool) \<Rightarrow> jsval list \<Rightarrow> jserr + jsval" where
  "findE p [] = Inr JUndef"
| "findE p (x # xs) =
     (case p x of
        Inl e \<Rightarrow> Inl e
      | Inr b \<Rightarrow> if b then Inr x else findE p xs)"

text \<open>\<^verbatim>\<open>item.itemmetadata?.qtimetadata?.qtimetadatafield\<close>\<close>

definition metadataField :: "jsval \<Rightarrow> jsval" where
  "metadataField item =
     oprop (oprop (getp item ''itemmetadata'') ''qtimetadata'') ''qtimetadatafield''"

text \<open>
  Score resolution (server.js lines 142-160, api/index.js lines 150-168), from the
  list \<open>qtimetadatafields\<close> that each variant builds in its own way.
\<close>

definition resolveScore :: "jsval list \<Rightarrow> jsval \<Rightarrow> jsval" where
  "resolveScore qtimetadatafields item =
     (let weightField =
            (case find (\<lambda>field. oprop field ''fieldlabel'' = JStr ''cc_weighting'')
                    qtimetadatafields of
               None \<Rightarrow> JUndef
             | Some field \<Rightarrow> field)
      in if truthy weightField then nc (getp weightField ''fieldentry'') (JStr ''N/A'')
         else
           let resprocessing = getp item ''resprocessing''
           in if truthy resprocessing \<and> truthy (getp resprocessing ''respcondition'') then
                let respcondition =
                      (if isArray (getp resprocessing ''respcondition'')
                       then idx0 (getp resprocessing ''respcondition'')
                       else getp resprocessing ''respcondition'')
                in if truthy (oprop respcondition ''setvar'')
                   then nc (getp (getp respcondition ''setvar'') ''val'') (JStr ''N/A'')
                   else JStr ''N/A''
              else JStr ''N/A'')"

text \<open>
  \<^verbatim>\<open>choices.forEach((choice) => question.options.push({identifier: choice.ident ?? "N/A",
  text: stripHtmlTags(choice.material?.mattext?.["#"]) ?? "N/A"}))\<close>
\<close>

fun extractChoices :: "jsval list \<Rightarrow> jserr + choice list" where
  "extractChoices [] = Inr []"
| "extractChoices (choice # rest) =
     (case dot choice ''ident'' of
        Inl e \<Rightarrow> Inl e
      | Inr ident \<Rightarrow>
          (case stripHtmlTags (oprop (oprop (getp choice ''material'') ''mattext'') ''#'') of
             Inl e \<Rightarrow> Inl e
           | Inr t \<Rightarrow>
               (case extractChoices rest of
                  Inl e \<Rightarrow> Inl e
                | Inr others \<Rightarrow>
                    Inr (\<lparr>optionIdentifier = nc ident (JStr ''N/A''),
                          optionText = nc (JStr t) (JStr ''N/A'')\<rparr> # others))))"

text \<open>
  \<^verbatim>\<open>item.resprocessing?.respcondition?.find(callback)\<close>: \<^verbatim>\<open>undefined\<close> when the
  response conditions are absent; only an array has a \<^verbatim>\<open>find\<close> method, so the call
  throws on a single object and on a string.
\<close>

definition findRespcondition :: "jsval \<Rightarrow> (jsval \<Rightarrow> jserr + bool) \<Rightarrow> jserr + jsval" where
  "findRespcondition item callback =
     (case oprop (getp item ''resprocessing'') ''respcondition'' of
        JUndef \<Rightarrow> Inr JUndef
      | JArr conds \<Rightarrow> findE callback conds
      | _ \<Rightarrow> Inl TypeError)"

text \<open>\<^verbatim>\<open>(cond) => cond.setvar\<close>\<close>

definition hasSetvar :: "jsval \<Rightarrow> jserr + bool" where
  "hasSetvar cond = thenE (dot cond ''setvar'') (\<lambda>setvar. Inr (truthy setvar))"

text \<open>
  The correct answer of a multiple-choice item (server.js lines 185-202, api/index.js
  lines 200-217).  \<^verbatim>\<open>trim\<close> is a method of strings only.
\<close>

definition correctAnswerMC :: "jsval \<Rightarrow> choice list \<Rightarrow> jserr + jsval" where
  "correctAnswerMC item opts =
     thenE (findRespcondition item hasSetvar) (\<lambda>correctResponse.
       if truthy correctResponse then
         (case nc (oprop (oprop (getp correctResponse ''conditionvar'') ''varequal'') ''#'')
                 (JStr '''') of
            JStr s \<Rightarrow>
              (let correctIdent = trim s;
                   correctChoice = find (\<lambda>option. optionIdentifier option = JStr correctIdent) opts
               in Inr (JObj [(''id'', JStr correctIdent),
                             (''text'', (case correctChoice of
                                           None \<Rightarrow> JStr ''N/A''
                                         | Some c \<Rightarrow> nc (optionText c) (JStr ''N/A'')))]))
          | _ \<Rightarrow> Inl TypeError)
       else Inr (JObj [(''id'', JStr ''N/A''), (''text'', JStr ''N/A'')]))"

text \<open>
  \<^verbatim>\<open>item.resprocessing?.respcondition?.[0]?.conditionvar?.varequal?.["#"] ?? "N/A"\<close>
\<close>

definition correctAnswerFIB :: "jsval \<Rightarrow> jsval" where
  "correctAnswerFIB item =
     nc (oprop (oprop (oprop (oidx0 (oprop (getp item ''resprocessing'') ''respcondition''))
           ''conditionvar'') ''varequal'') ''#'')
        (JStr ''N/A'')"

text \<open>
  \<^verbatim>\<open>(f) => f.fieldlabel === "cc_profile" && f.fieldentry === "cc.essay.v0p1"\<close> and the
  essay test made with it on \<open>profileField\<close>.
\<close>

definition essayField :: "jsval \<Rightarrow> jserr + bool" where
  "essayField f =
     thenE (dot f ''fieldlabel'') (\<lambda>label.
       Inr (label = JStr ''cc_profile'' \<and> getp f ''fieldentry'' = JStr ''cc.essay.v0p1''))"

definition isEssay :: "jsval \<Rightarrow> jserr + bool" where
  "isEssay profileField =
     (if isArray profileField
      then thenE (findE essayField (elems profileField)) (\<lambda>found. Inr (truthy found))
      else Inr (oprop profileField ''fieldlabel'' = JStr ''cc_profile''
                \<and> oprop profileField ''fieldentry'' = JStr ''cc.essay.v0p1''))"

text \<open>The choice labels of server.js and api/upload.js, read once the
  \<^verbatim>\<open>render_choice\<close> element is known to be there.\<close>

definition choiceLabels :: "jsval \<Rightarrow> jsval list" where
  "choiceLabels item =
     (let response_label =
            getp (getp (getp (getp item ''presentation'') ''response_lid'') ''render_choice'')
              ''response_label''
      in if isArray response_label then elems response_label else [response_label])"

subsection \<open>server.js\<close>

definition processItem :: "jsval \<Rightarrow> jserr + question" where
  "processItem item =
     thenE (dot item ''ident'') (\<lambda>ident.
     thenE (stripHtmlTags
              (oprop (oprop (oprop (getp item ''presentation'') ''material'') ''mattext'') ''#''))
       (\<lambda>t.
     let question = \<lparr>itemIdentifier = nc ident (JStr ''N/A''),
                     questionText = nc (JStr t) (JStr ''N/A''),
                     responseType = ''N/A'',
                     options = [],
                     correctAnswer = JStr ''N/A'',
                     score = JStr ''N/A''\<rparr>;
         qtimetadatafields =
           (if isArray (metadataField item) then elems (metadataField item)
            else [metadataField item]);
         scored = question\<lparr>score := resolveScore qtimetadatafields item\<rparr>
     in if truthy (oprop (oprop (getp item ''presentation'') ''response_lid'') ''render_choice'')
        then
          thenE (extractChoices (choiceLabels item)) (\<lambda>opts.
          thenE (correctAnswerMC item opts) (\<lambda>answer.
            Inr (scored\<lparr>responseType := ''Multiple Choice'', options := opts,
                        correctAnswer := answer\<rparr>)))
        else if truthy (oprop (getp item ''presentation'') ''response_str'') then
          Inr (scored\<lparr>responseType := ''Fill-in-the-Blank'',
                      correctAnswer := correctAnswerFIB item\<rparr>)
        else
          thenE (isEssay (metadataField item)) (\<lambda>essay.
            if essay then
              Inr (scored\<lparr>responseType := ''Essay'',
                          correctAnswer := JStr ''Manual scoring required.'',
                          score := JStr ''Manual grading''\<rparr>)
            else Inr (scored\<lparr>responseType := ''Unknown''\<rparr>))))"

subsection \<open>api/index.js (the unnamed source file)\<close>

text \<open>\<^verbatim>\<open>(f) => f.fieldlabel === "cc_profile"\<close>\<close>

definition profileLabel :: "jsval \<Rightarrow> jserr + bool" where
  "profileLabel f = thenE (dot f ''fieldlabel'') (\<lambda>label. Inr (label = JStr ''cc_profile''))"

text \<open>
  The choice labels of api/index.js: the test for an array reads the path with
  \<^verbatim>\<open>?.\<close>, the other branch reads it with plain property accesses, which throw on
  a missing \<^verbatim>\<open>presentation\<close>, \<^verbatim>\<open>response_lid\<close> or \<^verbatim>\<open>render_choice\<close>.
\<close>

definition choiceLabels_index :: "jsval \<Rightarrow> jserr + jsval list" where
  "choiceLabels_index item =
     (let response_label =
            oprop (oprop (oprop (getp item ''presentation'') ''response_lid'') ''render_choice'')
              ''response_label''
      in if isArray response_label then Inr (elems response_label)
         else
           thenE (dot (getp item ''presentation'') ''response_lid'') (\<lambda>response_lid.
           thenE (dot response_lid ''render_choice'') (\<lambda>render_choice.
           thenE (dot render_choice ''response_label'') (\<lambda>label. Inr [label]))))"

definition processItem_index :: "jsval \<Rightarrow> jserr + question" where
  "processItem_index item =
     thenE (dot item ''ident'') (\<lambda>ident.
     thenE (stripHtmlTags
              (oprop (oprop (oprop (getp item ''presentation'') ''material'') ''mattext'') ''#''))
       (\<lambda>t.
     let question = \<lparr>itemIdentifier = nc ident (JStr ''N/A''),
                     questionText = nc (JStr t) (JStr ''N/A''),
                     responseType = ''N/A'',
                     options = [],
                     correctAnswer = JObj [(''id'', JStr ''N/A''), (''text'', JStr ''N/A'')],
                     score = JStr ''N/A''\<rparr>;
         qtimetadatafields =
           (if isArray (metadataField item) then elems (metadataField item)
            else filter truthy [metadataField item]);
         scored = question\<lparr>score := resolveScore qtimetadatafields item\<rparr>
     in thenE (findE profileLabel qtimetadatafields) (\<lambda>profileField.
        let questionProfileType =
              (if truthy profileField then getp profileField ''fieldentry''
               else JStr ''unknown'')
        in if questionProfileType = JStr ''cc.multiple_choice.v0p1'' then
             thenE (choiceLabels_index item) (\<lambda>choices.
             thenE (extractChoices choices) (\<lambda>opts.
             thenE (correctAnswerMC item opts) (\<lambda>answer.
               Inr (scored\<lparr>responseType := ''Multiple Choice'', options := opts,
                           correctAnswer := answer\<rparr>))))
           else if questionProfileType = JStr ''cc.fib.v0p1'' then
             Inr (scored\<lparr>responseType := ''Fill-in-the-Blank'',
                         correctAnswer := correctAnswerFIB item\<rparr>)
           else
             thenE (isEssay profileField) (\<lambda>essay.
               if essay then
                 Inr (scored\<lparr>responseType := ''Essay'',
                             correctAnswer := JStr ''Manual scoring required.'',
                             score := JStr ''Manual grading''\<rparr>)
               else Inr (scored\<lparr>responseType := ''Unknown''\<rparr>)))))"

subsection \<open>api/upload.js\<close>

text \<open>
  \<^verbatim>\<open>a === b\<close>: strings are compared by value; two objects or arrays read from
  different places of the tree are different references.
\<close>

fun strictEq :: "jsval \<Rightarrow> jsval \<Rightarrow> bool" where
  "strictEq (JStr a) (JStr b) = (a = b)"
| "strictEq JUndef JUndef = True"
| "strictEq _ _ = False"

text \<open>\<^verbatim>\<open>(cond) => cond.setvar && cond.setvar.$?.varname === "SCORE"\<close>\<close>

definition setsScore :: "jsval \<Rightarrow> jserr + bool" where
  "setsScore cond =
     thenE (dot cond ''setvar'') (\<lambda>setvar.
       Inr (truthy setvar \<and> oprop (getp setvar ''$'') ''varname'' = JStr ''SCORE''))"

definition processItem_upload :: "jsval \<Rightarrow> jserr + question" where
  "processItem_upload item =
     thenE (dot item ''ident'') (\<lambda>ident.
     thenE (stripHtmlTags
              (oprop (oprop (oprop (getp item ''presentation'') ''material'') ''mattext'') ''#''))
       (\<lambda>t.
     let question = \<lparr>itemIdentifier = nc ident (JStr ''N/A''),
                     questionText = nc (JStr t) (JStr ''N/A''),
                     responseType = ''N/A'',
                     options = [],
                     correctAnswer = JStr ''N/A'',
                     score = JStr ''N/A''\<rparr>
     in if truthy (oprop (oprop (getp item ''presentation'') ''response_lid'') ''render_choice'')
        then
          thenE (extractChoices (choiceLabels item)) (\<lambda>opts.
          thenE (findRespcondition item setsScore) (\<lambda>correctResponse.
            let listed = question\<lparr>responseType := ''Multiple Choice'', options := opts\<rparr>
            in if truthy correctResponse then
                 (let correctIdent =
                        nc (oprop (oprop (getp correctResponse ''conditionvar'') ''varequal'')
                              ''#'')
                           (JStr '''');
                      correctChoice = find (\<lambda>opt. strictEq (optionIdentifier opt) correctIdent) opts
                  in Inr (listed\<lparr>correctAnswer :=
                                    JObj [(''id'', correctIdent),
                                          (''text'', (case correctChoice of
                                                        None \<Rightarrow> JStr ''N/A''
                                                      | Some c \<Rightarrow> nc (optionText c) (JStr ''N/A'')))],
                                  score := nc (oprop (getp correctResponse ''setvar'') ''#'')
                                             (JStr ''N/A'')\<rparr>))
               else Inr listed))
        else Inr question))"

section \<open>Assessment files and upload handlers\<close>

record quiz =
  title :: jsval
  items :: "question list"

text \<open>\<^verbatim>\<open>xs.map(f)\<close> and \<^verbatim>\<open>xs.filter(p)\<close> with callbacks that may throw.\<close>

fun mapE :: "('a \<Rightarrow> jserr + 'b) \<Rightarrow> 'a list \<Rightarrow> jserr + 'b list" where
  "mapE f [] = Inr []"
| "mapE f (x # xs) =
     (case f x of
        Inl e \<Rightarrow> Inl e
      | Inr y \<Rightarrow> (case mapE f xs of Inl e \<Rightarrow> Inl e | Inr ys \<Rightarrow> Inr (y # ys)))"

fun filterE :: "('a \<Rightarrow> jserr + bool) \<Rightarrow> 'a list \<Rightarrow> jserr + 'a list" where
  "filterE p [] = Inr []"
| "filterE p (x # xs) =
     (case p x of
        Inl e \<Rightarrow> Inl e
      | Inr b \<Rightarrow>
          (case filterE p xs of
             Inl e \<Rightarrow> Inl e
           | Inr ys \<Rightarrow> Inr (if b then x # ys else ys)))"

text \<open>
  The external collaborators of a request: the scratch-directory provider, the
  decompression service, the file reader, the XML parser, the upload middleware of
  api/upload.js, and the two removals, which report whether they succeeded (a failed
  removal is caught and logged by the handler).
\<close>

record env =
  mkdtemp :: "jserr + string"
  unzipFile :: "string \<Rightarrow> string \<Rightarrow> jserr + unit"
  readFile :: "string \<Rightarrow> jserr + string"
  parseString :: "string \<Rightarrow> jserr + jsval"
  runMiddleware :: "jserr + unit"
  unlink :: "string \<Rightarrow> bool"
  rm :: "string \<Rightarrow> bool"

text \<open>
  The callback of \<^verbatim>\<open>parser.parseString\<close> in \<^verbatim>\<open>processXmlFile\<close>, on the parsed document
  \<open>result\<close>.  The three files differ in the item function, in the two title literals
  and in the mode of the parser; \<open>None\<close> is the \<^verbatim>\<open>null\<close> the promise resolves to.
\<close>

definition itemList :: "jsval \<Rightarrow> jsval list" where
  "itemList holder =
     (if isArray (getp holder ''item'') then elems (getp holder ''item'')
      else [getp holder ''item''])"

definition quizOf ::
  "(jsval \<Rightarrow> jserr + question) \<Rightarrow> string \<Rightarrow> string \<Rightarrow> jsval \<Rightarrow> jserr + quiz option" where
  "quizOf classify noTitle singleTitle result =
     thenE (dot result ''questestinterop'') (\<lambda>mainContainer.
       if \<not> truthy mainContainer then Inr None
       else if truthy (getp mainContainer ''assessment'') then
         (let assessment = getp mainContainer ''assessment'';
              quizTitle = nc (getp assessment ''title'') (JStr noTitle);
              section = getp assessment ''section'';
              its = (if truthy section then itemList section else [])
          in thenE (mapE classify its) (\<lambda>processedItems.
               Inr (Some \<lparr>title = quizTitle, items = processedItems\<rparr>)))
       else if truthy (getp mainContainer ''item'') then
         thenE (mapE classify (itemList mainContainer)) (\<lambda>processedItems.
           Inr (Some \<lparr>title = JStr singleTitle, items = processedItems\<rparr>))
       else Inr None)"

definition processXmlFile ::
  "(jsval \<Rightarrow> jserr + question) \<Rightarrow> string \<Rightarrow> string \<Rightarrow> env \<Rightarrow> string \<Rightarrow> jserr + quiz option"
  where
  "processXmlFile classify noTitle singleTitle env xmlFilePath =
     thenE (readFile env xmlFilePath) (\<lambda>xmlString.
     thenE (parseString env xmlString) (\<lambda>result.
       quizOf classify noTitle singleTitle result))"

definition processXmlFile_server :: "env \<Rightarrow> string \<Rightarrow> jserr + quiz option" where
  "processXmlFile_server =
     processXmlFile processItem ''N/A (Title not found)''
       ''Single Item Quiz (No Assessment Tag)''"

text \<open>
  api/index.js builds both of its parsers with \<^verbatim>\<open>strict: false\<close>.  In that mode the
  parser passes every element name and every attribute name through
  \<^verbatim>\<open>toUpperCase\<close> before it builds the tree, so the tree that the code of
  api/index.js receives is the tree of the document with every key in upper case;
  \<open>parseString\<close> of the environment stands for the tree with the names as the
  document writes them.  Among the code units below 256, \<^verbatim>\<open>toUpperCase\<close> maps a-z
  and the lower-case letters of Latin-1 to their capitals and the sharp s to SS; the
  two letters whose capital lies beyond 255 are left as they are.
\<close>

definition upperUnit :: "char \<Rightarrow> string" where
  "upperUnit c =
     (let n = (of_char c :: nat)
      in if 97 \<le> n \<and> n \<le> 122 then [char_of (n - 32)]
         else if n = 223 then ''SS''
         else if 224 \<le> n \<and> n \<le> 254 \<and> n \<noteq> 247 then [char_of (n - 32)]
         else [c])"

definition toUpperCase :: "string \<Rightarrow> string" where
  "toUpperCase s = concat (map upperUnit s)"

fun looseCase :: "jsval \<Rightarrow> jsval" where
  "looseCase (JObj kvs) = JObj (map (\<lambda>(k, v). (toUpperCase k, looseCase v)) kvs)"
| "looseCase (JArr xs) = JArr (map looseCase xs)"
| "looseCase v = v"

definition parseLoose :: "env \<Rightarrow> string \<Rightarrow> jserr + jsval" where
  "parseLoose env xmlString =
     thenE (parseString env xmlString) (\<lambda>result. Inr (looseCase result))"

definition processXmlFile_index :: "env \<Rightarrow> string \<Rightarrow> jserr + quiz option" where
  "processXmlFile_index env xmlFilePath =
     thenE (readFile env xmlFilePath) (\<lambda>xmlString.
     thenE (parseLoose env xmlString) (\<lambda>result.
       quizOf processItem_index ''N/A (Title not found)''
         ''Single Item Quiz (No Assessment Tag)'' result))"

definition processXmlFile_upload :: "env \<Rightarrow> string \<Rightarrow> jserr + quiz option" where
  "processXmlFile_upload = processXmlFile processItem_upload ''N/A'' ''Single Item Quiz''"

text \<open>
  \<^verbatim>\<open>path.join(tempDirPath, relativePath)\<close> throws unless \<open>relativePath\<close> is a string;
  the normalisation of the joined path is not modelled.
\<close>

definition pathJoin :: "string \<Rightarrow> jsval \<Rightarrow> jserr + string" where
  "pathJoin dir relativePath =
     (case relativePath of
        JStr s \<Rightarrow> Inr (if s = [] then dir else dir @ ''/'' @ s)
      | _ \<Rightarrow> Inl TypeError)"

text \<open>The subject of the package, read from the parsed manifest.\<close>

definition subjectName :: "jsval \<Rightarrow> jserr + jsval" where
  "subjectName manifest =
     thenE (dot manifest ''manifest'') (\<lambda>m.
       Inr (nc (oprop (oprop (oprop (oprop (oprop (oprop m ''metadata'') ''lomm:lom'')
                  ''lomm:general'') ''lomm:title'') ''lomm:string'') ''#'')
               (JStr ''N/A'')))"

text \<open>\<^verbatim>\<open>manifest.manifest.resources.resource\<close>, after \<open>subjectName\<close> has read
  \<^verbatim>\<open>manifest.manifest\<close>.\<close>

definition resourceField :: "jsval \<Rightarrow> jserr + jsval" where
  "resourceField manifest =
     thenE (dot (getp manifest ''manifest'') ''resources'') (\<lambda>resources.
       dot resources ''resource'')"

text \<open>\<^verbatim>\<open>(r) => r.type === "imsqti_xmlv1p2/imscc_xmlv1p3/assessment"\<close>\<close>

definition isAssessment :: "jsval \<Rightarrow> jserr + bool" where
  "isAssessment r =
     thenE (dot r ''type'') (\<lambda>t. Inr (t = JStr ''imsqti_xmlv1p2/imscc_xmlv1p3/assessment''))"

text \<open>
  \<^verbatim>\<open>resources.filter(callback)\<close>: only an array has a \<^verbatim>\<open>filter\<close> method, and the
  property access itself throws on \<^verbatim>\<open>undefined\<close>.
\<close>

definition filterMethod :: "jsval \<Rightarrow> (jsval \<Rightarrow> jserr + bool) \<Rightarrow> jserr + jsval list" where
  "filterMethod v callback =
     (case v of JArr xs \<Rightarrow> filterE callback xs | _ \<Rightarrow> Inl TypeError)"

subsection \<open>server.js\<close>

definition quizFiles_server :: "jsval \<Rightarrow> jserr + jsval list" where
  "quizFiles_server manifest =
     thenE (resourceField manifest) (\<lambda>resources. filterMethod resources isAssessment)"

text \<open>The loop over \<open>quizFiles\<close> of server.js and api/upload.js, with
  \<^verbatim>\<open>relativePath = resource.file.href\<close>.\<close>

fun collectQuizzes :: "(string \<Rightarrow> jserr + quiz option) \<Rightarrow> string \<Rightarrow> jsval list
    \<Rightarrow> jserr + quiz list" where
  "collectQuizzes process tempDirPath [] = Inr []"
| "collectQuizzes process tempDirPath (resource # rest) =
     (case dot (getp resource ''file'') ''href'' of
        Inl e \<Rightarrow> Inl e
      | Inr relativePath \<Rightarrow>
          (case pathJoin tempDirPath relativePath of
             Inl e \<Rightarrow> Inl e
           | Inr xmlFilePath \<Rightarrow>
               (case process xmlFilePath of
                  Inl e \<Rightarrow> Inl e
                | Inr quizData \<Rightarrow>
                    (case collectQuizzes process tempDirPath rest of
                       Inl e \<Rightarrow> Inl e
                     | Inr allQuizData \<Rightarrow>
                         Inr (case quizData of
                                None \<Rightarrow> allQuizData
                              | Some q \<Rightarrow> q # allQuizData)))))"

definition extract_server :: "env \<Rightarrow> string \<Rightarrow> jserr + jsval \<times> quiz list" where
  "extract_server env tempDirPath =
     thenE (readFile env (tempDirPath @ ''/imsmanifest.xml'')) (\<lambda>manifestXml.
     thenE (parseString env manifestXml) (\<lambda>manifest.
     thenE (subjectName manifest) (\<lambda>subject.
     thenE (quizFiles_server manifest) (\<lambda>quizFiles.
     thenE (collectQuizzes (processXmlFile_server env) tempDirPath quizFiles)
       (\<lambda>allQuizData. Inr (subject, allQuizData))))))"

subsection \<open>api/index.js (the unnamed source file)\<close>

definition quizFiles_index :: "jsval \<Rightarrow> jserr + jsval list" where
  "quizFiles_index manifest =
     thenE (resourceField manifest) (\<lambda>resource.
       filterMethod
         (JArr (if isArray resource then elems resource else filter truthy [resource]))
         isAssessment)"

text \<open>\<^verbatim>\<open>files[0]?.href\<close> on the list-normalized file entries of a resource.\<close>

definition firstHref :: "jsval \<Rightarrow> jsval" where
  "firstHref resource =
     (let files = (if isArray (getp resource ''file'') then elems (getp resource ''file'')
                   else filter truthy [getp resource ''file''])
      in oprop (case files of [] \<Rightarrow> JUndef | f # _ \<Rightarrow> f) ''href'')"

fun collectQuizzes_index :: "(string \<Rightarrow> jserr + quiz option) \<Rightarrow> string \<Rightarrow> jsval list
    \<Rightarrow> jserr + quiz list" where
  "collectQuizzes_index process tempDirPath [] = Inr []"
| "collectQuizzes_index process tempDirPath (resource # rest) =
     (if truthy (firstHref resource) then
        (case pathJoin tempDirPath (firstHref resource) of
           Inl e \<Rightarrow> Inl e
         | Inr xmlFilePath \<Rightarrow>
             (case process xmlFilePath of
                Inl e \<Rightarrow> Inl e
              | Inr quizData \<Rightarrow>
                  (case collectQuizzes_index process tempDirPath rest of
                     Inl e \<Rightarrow> Inl e
                   | Inr allQuizData \<Rightarrow>
                       Inr (case quizData of
                              None \<Rightarrow> allQuizData
                            | Some q \<Rightarrow> q # allQuizData))))
      else collectQuizzes_index process tempDirPath rest)"

definition extract_index :: "env \<Rightarrow> string \<Rightarrow> jserr + jsval \<times> quiz list" where
  "extract_index env tempDirPath =
     thenE (readFile env (tempDirPath @ ''/imsmanifest.xml'')) (\<lambda>manifestXml.
     thenE (parseLoose env manifestXml) (\<lambda>manifest.
     thenE (subjectName manifest) (\<lambda>subject.
     thenE (quizFiles_index manifest) (\<lambda>quizFiles.
     thenE (collectQuizzes_index (processXmlFile_index env) tempDirPath quizFiles)
       (\<lambda>allQuizData. Inr (subject, allQuizData))))))"

subsection \<open>api/upload.js\<close>

text \<open>\<^verbatim>\<open>(r) => r?.type === "imsqti_xmlv1p2/imscc_xmlv1p3/assessment"\<close>\<close>

definition quizFiles_upload :: "jsval \<Rightarrow> jserr + jsval list" where
  "quizFiles_upload manifest =
     thenE (resourceField manifest) (\<lambda>resources.
       if isArray resources then filterMethod resources isAssessment
       else Inr (filter (\<lambda>r. oprop r ''type'' = JStr ''imsqti_xmlv1p2/imscc_xmlv1p3/assessment'')
                   [resources]))"

definition extract_upload :: "env \<Rightarrow> string \<Rightarrow> jserr + jsval \<times> quiz list" where
  "extract_upload env tempDirPath =
     thenE (readFile env (tempDirPath @ ''/imsmanifest.xml'')) (\<lambda>manifestXml.
     thenE (parseString env manifestXml) (\<lambda>manifest.
     thenE (subjectName manifest) (\<lambda>subject.
     thenE (quizFiles_upload manifest) (\<lambda>quizFiles.
     thenE (collectQuizzes (processXmlFile_upload env) tempDirPath quizFiles)
       (\<lambda>allQuizData. Inr (subject, allQuizData))))))"

subsection \<open>The request handlers and the scratch files\<close>

text \<open>
  The scratch area: the staged upload files and the temporary directories that
  exist.  A request names the HTTP method and the path of the file staged for it, if
  one was sent.
\<close>

record fsys =
  uploads :: "string list"
  tmpdirs :: "string list"

record request =
  reqMethod :: string
  reqFile :: "string option"

datatype response =
    Failure nat string
  | Result jsval "quiz list"

text \<open>The \<^verbatim>\<open>finally\<close> block of server.js and api/index.js.\<close>

definition cleanup :: "env \<Rightarrow> string \<Rightarrow> string option \<Rightarrow> fsys \<Rightarrow> fsys" where
  "cleanup env imsccFilePath tempDirPath fs =
     (let fs1 = (if unlink env imsccFilePath
                 then fs\<lparr>uploads := removeAll imsccFilePath (uploads fs)\<rparr> else fs)
      in case tempDirPath of
           None \<Rightarrow> fs1
         | Some dir \<Rightarrow>
             if rm env dir then fs1\<lparr>tmpdirs := removeAll dir (tmpdirs fs1)\<rparr> else fs1)"

text \<open>
  \<^verbatim>\<open>app.post("/upload", upload.single("imsccFile"), ...)\<close> of server.js and, with
  \<open>extract_index\<close>, \<^verbatim>\<open>app.post("/api/upload", ...)\<close> of api/index.js.  The middleware
  has staged the file before the handler runs.
\<close>

definition handler_with ::
  "(env \<Rightarrow> string \<Rightarrow> jserr + jsval \<times> quiz list) \<Rightarrow> env \<Rightarrow> request \<Rightarrow> fsys
     \<Rightarrow> response \<times> fsys" where
  "handler_with extract env req fs =
     (case reqFile req of
        None \<Rightarrow> (Failure 400 ''No file uploaded.'', fs)
      | Some imsccFilePath \<Rightarrow>
          (case mkdtemp env of
             Inl e \<Rightarrow>
               (Failure 500 ''Error processing the file.'', cleanup env imsccFilePath None fs)
           | Inr dir \<Rightarrow>
               (let fs1 = fs\<lparr>tmpdirs := dir # tmpdirs fs\<rparr>;
                    res = (case thenE (unzipFile env imsccFilePath dir)
                                  (\<lambda>_. extract env dir) of
                             Inl e \<Rightarrow> Failure 500 ''Error processing the file.''
                           | Inr (subject, allQuizData) \<Rightarrow> Result subject allQuizData)
                in (res, cleanup env imsccFilePath (Some dir) fs1))))"

definition handler_server :: "env \<Rightarrow> request \<Rightarrow> fsys \<Rightarrow> response \<times> fsys" where
  "handler_server = handler_with extract_server"

definition handler_index :: "env \<Rightarrow> request \<Rightarrow> fsys \<Rightarrow> response \<times> fsys" where
  "handler_index = handler_with extract_index"

text \<open>
  \<^verbatim>\<open>handler\<close> of api/upload.js.  The middleware runs inside the handler and stages
  the file; the function has no \<^verbatim>\<open>finally\<close> block.
\<close>

definition handler_upload :: "env \<Rightarrow> request \<Rightarrow> fsys \<Rightarrow> response \<times> fsys" where
  "handler_upload env req fs =
     (if reqMethod req \<noteq> ''POST'' then (Failure 405 ''Only POST allowed'', fs)
      else
        case runMiddleware env of
          Inl e \<Rightarrow> (Failure 500 ''Failed to process file'', fs)
        | Inr _ \<Rightarrow>
            (case reqFile req of
               None \<Rightarrow> (Failure 400 ''No file uploaded.'', fs)
             | Some imsccFilePath \<Rightarrow>
                 (let fs0 = fs\<lparr>uploads := imsccFilePath # uploads fs\<rparr>
                  in case mkdtemp env of
                       Inl e \<Rightarrow> (Failure 500 ''Failed to process file'', fs0)
                     | Inr dir \<Rightarrow>
                         (let fs1 = fs0\<lparr>tmpdirs := dir # tmpdirs fs0\<rparr>
                          in case thenE (unzipFile env imsccFilePath dir)
                                    (\<lambda>_. extract_upload env dir) of
                               Inl e \<Rightarrow> (Failure 500 ''Failed to process file'', fs1)
                             | Inr (subject, allQuizData) \<Rightarrow>
                                 (Result subject allQuizData, fs1)))))"

section \<open>Reference readings of the specification and sample inputs\<close>

text \<open>
  The one-or-many normalisation of the specification: a list stays, a present value
  that is not a list becomes a singleton list, an absent value the empty list.
\<close>

definition listNormalize :: "jsval \<Rightarrow> jsval list" where
  "listNormalize v = (case v of JArr xs \<Rightarrow> xs | JUndef \<Rightarrow> [] | _ \<Rightarrow> [v])"

text \<open>
  The removal of markup in the words of the specification: every piece from a \<^verbatim>\<open><\<close>
  to the next \<^verbatim>\<open>>\<close> is removed (non-greedy, across lines); everything else stays, also
  a \<^verbatim>\<open><\<close> that no \<^verbatim>\<open>>\<close> follows.
\<close>

function spec_strip :: "string \<Rightarrow> string" where
  "spec_strip [] = []"
| "spec_strip (c # cs) =
     (if c = CHR ''<'' \<and> CHR ''>'' \<in> set cs then spec_strip (skipTag cs)
      else c # spec_strip cs)"
  by pat_completeness auto
termination
  by (relation "measure length") (auto simp: length_skipTag less_Suc_eq_le)

text \<open>
  Score resolution in the words of the specification: the entry of the first field
  labelled \<^verbatim>\<open>cc_weighting\<close> in the list-normalized metadata fields; otherwise the
  value of the set-variable of the first response condition, which a QTI
  \<^verbatim>\<open><setvar action="Set" varname="SCORE">100</setvar>\<close> holds as its text (key \<^verbatim>\<open>#\<close> of
  the parsed element, the element itself when it has no attribute); \<^verbatim>\<open>"N/A"\<close> for
  whatever is missing.
\<close>

definition elementText :: "jsval \<Rightarrow> jsval" where
  "elementText v =
     (case v of JStr s \<Rightarrow> (if s = [] then JUndef else JStr s) | _ \<Rightarrow> getp v ''#'')"

definition spec_score :: "jsval \<Rightarrow> jsval" where
  "spec_score item =
     (case find (\<lambda>f. getp f ''fieldlabel'' = JStr ''cc_weighting'')
             (listNormalize (metadataField item)) of
        Some f \<Rightarrow> nc (getp f ''fieldentry'') (JStr ''N/A'')
      | None \<Rightarrow>
          (case listNormalize (getp (getp item ''resprocessing'') ''respcondition'') of
             [] \<Rightarrow> JStr ''N/A''
           | respcondition # _ \<Rightarrow>
               nc (elementText (getp respcondition ''setvar'')) (JStr ''N/A'')))"

text \<open>
  The score that the resolution of server.js and api/index.js computes, in closed
  form: it differs from \<open>spec_score\<close> in reading the property \<^verbatim>\<open>val\<close> of the
  set-variable.
\<close>

definition code_score :: "jsval \<Rightarrow> jsval" where
  "code_score item =
     (case find (\<lambda>f. getp f ''fieldlabel'' = JStr ''cc_weighting'')
             (listNormalize (metadataField item)) of
        Some f \<Rightarrow> nc (getp f ''fieldentry'') (JStr ''N/A'')
      | None \<Rightarrow>
          (case listNormalize (getp (getp item ''resprocessing'') ''respcondition'') of
             [] \<Rightarrow> JStr ''N/A''
           | respcondition # _ \<Rightarrow>
               nc (getp (getp respcondition ''setvar'') ''val'') (JStr ''N/A'')))"

text \<open>The two structural tests of server.js on the presentation of an item.\<close>

definition hasRenderChoice :: "jsval \<Rightarrow> bool" where
  "hasRenderChoice item =
     truthy (oprop (oprop (getp item ''presentation'') ''response_lid'') ''render_choice'')"

definition hasResponseStr :: "jsval \<Rightarrow> bool" where
  "hasResponseStr item = truthy (oprop (getp item ''presentation'') ''response_str'')"

text \<open>
  An item declares the essay profile when one of its list-normalized metadata fields
  is labelled \<^verbatim>\<open>cc_profile\<close> with entry \<^verbatim>\<open>cc.essay.v0p1\<close>; \<open>firstProfile\<close> is the first
  field labelled \<^verbatim>\<open>cc_profile\<close>.
\<close>

definition essayProfile :: "jsval \<Rightarrow> bool" where
  "essayProfile f =
     (getp f ''fieldlabel'' = JStr ''cc_profile''
      \<and> getp f ''fieldentry'' = JStr ''cc.essay.v0p1'')"

definition declaresEssay :: "jsval \<Rightarrow> bool" where
  "declaresEssay item = list_ex essayProfile (listNormalize (metadataField item))"

definition firstProfile :: "jsval \<Rightarrow> jsval option" where
  "firstProfile item =
     find (\<lambda>f. getp f ''fieldlabel'' = JStr ''cc_profile'')
       (listNormalize (metadataField item))"

text \<open>Builders for the parsed form of the QTI elements used in the sample items.\<close>

definition mattextOf :: "string \<Rightarrow> jsval" where
  "mattextOf t =
     JObj [(''material'', JObj [(''mattext'', JObj [(''texttype'', JStr ''text/html''),
                                                     (''#'', JStr t)])])]"

definition responseLabel :: "string \<Rightarrow> string \<Rightarrow> jsval" where
  "responseLabel i t =
     JObj [(''ident'', JStr i),
           (''material'', JObj [(''mattext'', JObj [(''texttype'', JStr ''text/plain''),
                                                     (''#'', JStr t)])])]"

definition respconditionOf :: "string \<Rightarrow> jsval" where
  "respconditionOf v =
     JObj [(''continue'', JStr ''No''),
           (''conditionvar'', JObj [(''varequal'', JObj [(''respident'', JStr ''response1''),
                                                         (''#'', JStr v)])]),
           (''setvar'', JObj [(''action'', JStr ''Set''), (''varname'', JStr ''SCORE''),
                              (''#'', JStr ''100'')])]"

definition metadataOf :: "(string \<times> string) list \<Rightarrow> jsval" where
  "metadataOf fs =
     JObj [(''qtimetadata'',
            JObj [(''qtimetadatafield'',
                   JArr (map (\<lambda>(l, e). JObj [(''fieldlabel'', JStr l), (''fieldentry'', JStr e)])
                           fs))])]"

definition choicePresentation :: jsval where
  "choicePresentation =
     JObj [(''material'', JObj [(''mattext'', JObj [(''texttype'', JStr ''text/html''),
                                                     (''#'', JStr ''<p>Capital of France?</p>'')])]),
           (''response_lid'',
            JObj [(''ident'', JStr ''response1''), (''rcardinality'', JStr ''Single''),
                  (''render_choice'',
                   JObj [(''response_label'',
                          JArr [responseLabel ''A'' ''Paris'', responseLabel ''B'' ''Rome''])])])]"

definition textPresentation :: jsval where
  "textPresentation =
     JObj [(''material'', JObj [(''mattext'', JObj [(''texttype'', JStr ''text/html''),
                                                     (''#'', JStr ''<p>Capital of France?</p>'')])]),
           (''response_str'',
            JObj [(''ident'', JStr ''response1''), (''rcardinality'', JStr ''Single''),
                  (''render_fib'', JObj [(''response_label'', JObj [(''ident'', JStr ''answer1'')])])])]"

text \<open>
  A multiple-choice item with options A (Paris) and B (Rome).  \<open>mcItemSingle\<close> has the
  one response condition of a usual export, which xml2js delivers as an object;
  \<open>mcItemList\<close> has two, delivered as an array.
\<close>

definition mcItemSingle :: jsval where
  "mcItemSingle =
     JObj [(''ident'', JStr ''q1''),
           (''itemmetadata'',
            metadataOf [(''cc_profile'', ''cc.multiple_choice.v0p1''), (''cc_weighting'', ''1'')]),
           (''presentation'', choicePresentation),
           (''resprocessing'', JObj [(''respcondition'', respconditionOf ''A'')])]"

definition mcItemList :: jsval where
  "mcItemList =
     JObj [(''ident'', JStr ''q1''),
           (''itemmetadata'',
            metadataOf [(''cc_profile'', ''cc.multiple_choice.v0p1''), (''cc_weighting'', ''1'')]),
           (''presentation'', choicePresentation),
           (''resprocessing'',
            JObj [(''respcondition'',
                   JArr [JObj [(''conditionvar'', JObj [(''other'', JStr '''')])],
                         respconditionOf '' A '', respconditionOf ''B''])])]"

text \<open>A fill-in-the-blank item with one response condition and with two.\<close>

definition fibItemSingle :: jsval where
  "fibItemSingle =
     JObj [(''ident'', JStr ''q2''),
           (''itemmetadata'', metadataOf [(''cc_profile'', ''cc.fib.v0p1'')]),
           (''presentation'', textPresentation),
           (''resprocessing'', JObj [(''respcondition'', respconditionOf ''Paris'')])]"

definition fibItemList :: jsval where
  "fibItemList =
     JObj [(''ident'', JStr ''q2''),
           (''itemmetadata'', metadataOf [(''cc_profile'', ''cc.fib.v0p1'')]),
           (''presentation'', textPresentation),
           (''resprocessing'',
            JObj [(''respcondition'', JArr [respconditionOf ''Paris'', respconditionOf ''paris''])])]"

text \<open>
  Two items that declare the essay profile and a weighting: \<open>essayItem\<close> has only the
  question text in its presentation, \<open>essayItemStr\<close> also has the \<^verbatim>\<open>response_str\<close>
  element with which an essay answer is entered.
\<close>

definition essayItem :: jsval where
  "essayItem =
     JObj [(''ident'', JStr ''q3''),
           (''itemmetadata'',
            metadataOf [(''cc_profile'', ''cc.essay.v0p1''), (''cc_weighting'', ''10'')]),
           (''presentation'', mattextOf ''<p>Explain.</p>'')]"

definition essayItemStr :: jsval where
  "essayItemStr =
     JObj [(''ident'', JStr ''q3''),
           (''itemmetadata'',
            metadataOf [(''cc_profile'', ''cc.essay.v0p1''), (''cc_weighting'', ''10'')]),
           (''presentation'', textPresentation)]"

text \<open>
  An item with nothing but its identifier, and a multiple-choice item whose two
  choice labels have no material (the second has no attribute either, so it is the
  empty string).
\<close>

definition bareItem :: jsval where
  "bareItem = JObj [(''ident'', JStr ''q4'')]"

definition bareChoicesItem :: jsval where
  "bareChoicesItem =
     JObj [(''ident'', JStr ''q5''),
           (''itemmetadata'', metadataOf [(''cc_profile'', ''cc.multiple_choice.v0p1'')]),
           (''presentation'',
            JObj [(''response_lid'',
                   JObj [(''render_choice'',
                          JObj [(''response_label'',
                                 JArr [JObj [(''ident'', JStr ''A'')], JStr ''''])])])])]"

text \<open>
  An item with no metadata and no recognised structure whose single response condition
  sets the score 100.
\<close>

definition scoredItem :: jsval where
  "scoredItem =
     JObj [(''ident'', JStr ''q6''),
           (''presentation'', mattextOf ''<p>Name a river.</p>''),
           (''resprocessing'', JObj [(''respcondition'', respconditionOf ''Seine'')])]"

text \<open>The questions expected for \<open>mcItemList\<close> and for \<open>essayItem\<close>.\<close>

definition mcQuestion :: question where
  "mcQuestion =
     \<lparr>itemIdentifier = JStr ''q1'', questionText = JStr ''Capital of France?'',
      responseType = ''Multiple Choice'',
      options = [\<lparr>optionIdentifier = JStr ''A'', optionText = JStr ''Paris''\<rparr>,
                 \<lparr>optionIdentifier = JStr ''B'', optionText = JStr ''Rome''\<rparr>],
      correctAnswer = JObj [(''id'', JStr ''A''), (''text'', JStr ''Paris'')],
      score = JStr ''1''\<rparr>"

definition essayQuestion :: question where
  "essayQuestion =
     \<lparr>itemIdentifier = JStr ''q3'', questionText = JStr ''Explain.'',
      responseType = ''Essay'', options = [],
      correctAnswer = JStr ''Manual scoring required.'',
      score = JStr ''Manual grading''\<rparr>"

text \<open>
  Sample packages.  The environment built from a list of files (path and content) and
  a list of documents (content and parsed tree) reads and parses what the lists hold,
  creates the directory \<^verbatim>\<open>/tmp/imscc-a1\<close>, and lets every other step succeed.
\<close>

definition sampleEnv :: "(string \<times> string) list \<Rightarrow> (string \<times> jsval) list \<Rightarrow> env" where
  "sampleEnv files docs =
     \<lparr>mkdtemp = Inr ''/tmp/imscc-a1'',
      unzipFile = (\<lambda>sourcePath destPath. Inr ()),
      readFile = (\<lambda>p. case map_of files p of None \<Rightarrow> Inl IOError | Some c \<Rightarrow> Inr c),
      parseString = (\<lambda>x. case map_of docs x of None \<Rightarrow> Inl ParseError | Some t \<Rightarrow> Inr t),
      runMiddleware = Inr (),
      unlink = (\<lambda>p. True),
      rm = (\<lambda>p. True)\<rparr>"

definition manifestOf :: "jsval \<Rightarrow> jsval" where
  "manifestOf resource =
     JObj [(''manifest'',
            JObj [(''identifier'', JStr ''m1''),
                  (''metadata'',
                   JObj [(''lomm:lom'',
                          JObj [(''lomm:general'',
                                 JObj [(''lomm:title'',
                                        JObj [(''lomm:string'',
                                               JObj [(''language'', JStr ''en''),
                                                     (''#'', JStr ''Geography'')])])])])]),
                  (''resources'', JObj [(''resource'', resource)])])]"

definition webResource :: "string \<Rightarrow> jsval" where
  "webResource h =
     JObj [(''identifier'', JStr ''r1''), (''type'', JStr ''webcontent''), (''href'', JStr h),
           (''file'', JObj [(''href'', JStr h)])]"

text \<open>
  A manifest with a single resource, which is not an assessment; one with two
  resources that are not assessments; and one whose first resource is an assessment
  without a file entry.
\<close>

definition singleResourceManifest :: jsval where
  "singleResourceManifest = manifestOf (webResource ''page.html'')"

definition webResourcesManifest :: jsval where
  "webResourcesManifest = manifestOf (JArr [webResource ''page.html'', webResource ''b.html''])"

definition noFileManifest :: jsval where
  "noFileManifest =
     manifestOf (JArr [JObj [(''identifier'', JStr ''r0''),
                             (''type'', JStr ''imsqti_xmlv1p2/imscc_xmlv1p3/assessment'')],
                       webResource ''page.html''])"

definition packageEnv :: "jsval \<Rightarrow> env" where
  "packageEnv manifest =
     sampleEnv [(''/tmp/imscc-a1/imsmanifest.xml'', ''<manifest/>'')]
       [(''<manifest/>'', manifest)]"

definition uploadRequest :: request where
  "uploadRequest = \<lparr>reqMethod = ''POST'', reqFile = Some ''/tmp/upload-7f''\<rparr>"

definition stagedFs :: fsys where
  "stagedFs = \<lparr>uploads = [''/tmp/upload-7f''], tmpdirs = []\<rparr>"

definition emptyFs :: fsys where
  "emptyFs = \<lparr>uploads = [], tmpdirs = []\<rparr>"

section \<open>Properties of the sanitizer\<close>

lemma replaceTags_no_lt: "CHR ''<'' \<notin> set (replaceTags s)"
  by (induction s rule: replaceTags.induct) auto

lemma replaceTags_plain: "CHR ''<'' \<notin> set s \<Longrightarrow> replaceTags s = s"
  by (induction s) auto

lemma skipTag_closed:
  "CHR ''>'' \<notin> set m \<Longrightarrow> skipTag (m @ CHR ''>'' # b) = b"
proof -
  assume "CHR ''>'' \<notin> set m"
  then have h: "dropWhile (\<lambda>c. c \<noteq> CHR ''>'') (m @ CHR ''>'' # b) = CHR ''>'' # b"
    by (induction m) auto
  show ?thesis
    unfolding skipTag_def h by simp
qed

lemma skipTag_open: "CHR ''>'' \<notin> set m \<Longrightarrow> skipTag m = []"
proof -
  assume "CHR ''>'' \<notin> set m"
  then have h: "dropWhile (\<lambda>c. c \<noteq> CHR ''>'') m = []"
    by (induction m) auto
  show ?thesis
    unfolding skipTag_def h by simp
qed

lemma replaceTags_prefix:
  "CHR ''<'' \<notin> set a \<Longrightarrow> replaceTags (a @ CHR ''<'' # r) = a @ replaceTags (skipTag r)"
  by (induction a) auto

lemma replaceTags_tag:
  assumes "CHR ''<'' \<notin> set a" and "CHR ''>'' \<notin> set m"
  shows "replaceTags (a @ CHR ''<'' # m @ CHR ''>'' # b) = a @ replaceTags b"
  using assms by (simp add: replaceTags_prefix skipTag_closed)

lemma replaceTags_unclosed:
  assumes "CHR ''<'' \<notin> set a" and "CHR ''>'' \<notin> set m"
  shows "replaceTags (a @ CHR ''<'' # m) = a"
  using assms by (simp add: replaceTags_prefix skipTag_open)

lemma set_trim: "set (trim s) \<subseteq> set s"
proof -
  have "set (trim s) \<subseteq> set (dropWhile isWhiteSpace s)"
    unfolding trim_def using set_dropWhileD by fastforce
  also have "\<dots> \<subseteq> set s"
    using set_dropWhileD by fastforce
  finally show ?thesis .
qed

lemma dropWhile_fixed: "xs = [] \<or> \<not> P (hd xs) \<Longrightarrow> dropWhile P xs = xs"
  by (cases xs) auto

lemma rev_dropWhile_rev_prefix: "\<exists>zs. xs = rev (dropWhile P (rev xs)) @ zs"
proof -
  have "rev xs = takeWhile P (rev xs) @ dropWhile P (rev xs)"
    by simp
  then have "xs = rev (dropWhile P (rev xs)) @ rev (takeWhile P (rev xs))"
    by (metis rev_append rev_rev_ident)
  then show ?thesis ..
qed

lemma trim_idem: "trim (trim s) = trim s"
proof -
  define t where "t = dropWhile isWhiteSpace s"
  define u where "u = rev (dropWhile isWhiteSpace (rev t))"
  have tu: "trim s = u"
    by (simp add: trim_def t_def u_def)
  have t_hd: "t = [] \<or> \<not> isWhiteSpace (hd t)"
    unfolding t_def by (metis hd_dropWhile)
  obtain zs where zs: "t = u @ zs"
    unfolding u_def using rev_dropWhile_rev_prefix by blast
  have u_hd: "u = [] \<or> \<not> isWhiteSpace (hd u)"
    using t_hd zs by (cases u) auto
  have front: "dropWhile isWhiteSpace u = u"
    using u_hd by (rule dropWhile_fixed)
  have "dropWhile isWhiteSpace (rev u) = rev u"
    by (simp add: u_def)
  then have "trim u = u"
    by (simp add: trim_def front)
  then show ?thesis
    by (simp add: tu)
qed

lemma stripHtmlTags_string: "stripHtmlTags (JStr s) = Inr (trim (replaceTags s))"
  by (simp add: stripHtmlTags_def trim_def)

text \<open>
  The replacement of the code is the removal of the specification, cut at the first
  \<^verbatim>\<open><\<close> that the latter leaves: the pattern makes the closing \<^verbatim>\<open>>\<close> optional, so an
  unclosed \<^verbatim>\<open><\<close> takes the rest of the input with it.
\<close>

lemma replaceTags_spec_strip:
  "replaceTags s = takeWhile (\<lambda>c. c \<noteq> CHR ''<'') (spec_strip s)"
proof (induction s rule: replaceTags.induct)
  case 1
  show ?case by simp
next
  case (2 c cs)
  show ?case
  proof (cases "c = CHR ''<''")
    case False
    with 2 show ?thesis by simp
  next
    case lt: True
    show ?thesis
    proof (cases "CHR ''>'' \<in> set cs")
      case True
      with lt 2 show ?thesis by simp
    next
      case False
      with lt show ?thesis by (simp add: skipTag_open)
    qed
  qed
qed

lemma replaceTags_closed:
  "CHR ''<'' \<notin> set (spec_strip s) \<Longrightarrow> replaceTags s = spec_strip s"
  by (auto simp: replaceTags_spec_strip takeWhile_eq_all_conv)

text \<open>
  Claim C8, as amended.  The sanitizer returns the empty string for an absent input.
  On every string it returns, without an error, the trimmed result of removing every
  piece from a \<^verbatim>\<open><\<close> to the next \<^verbatim>\<open>>\<close> and, from a \<^verbatim>\<open><\<close> that no \<^verbatim>\<open>>\<close> follows,
  everything up to the end of the input.  So it is the specification's removal
  whenever that leaves no \<^verbatim>\<open><\<close> behind; a string without \<^verbatim>\<open><\<close> is returned unchanged
  except for trimming; and \<^verbatim>\<open><p>Hello <b>World</b></p>\<close> becomes \<^verbatim>\<open>Hello World\<close>.
\<close>

theorem stripHtmlTags_contract:
  "stripHtmlTags JUndef = Inr ''''
   \<and> stripHtmlTags (JStr s) = Inr (trim (takeWhile (\<lambda>c. c \<noteq> CHR ''<'') (spec_strip s)))
   \<and> (CHR ''<'' \<notin> set (spec_strip s) \<longrightarrow>
        stripHtmlTags (JStr s) = Inr (trim (spec_strip s)))
   \<and> (CHR ''<'' \<notin> set s \<longrightarrow> stripHtmlTags (JStr s) = Inr (trim s))
   \<and> stripHtmlTags (JStr ''<p>Hello <b>World</b></p>'') = Inr ''Hello World''"
proof -
  have absent: "stripHtmlTags JUndef = Inr ''''"
    by (simp add: stripHtmlTags_def)
  have every: "stripHtmlTags (JStr s)
      = Inr (trim (takeWhile (\<lambda>c. c \<noteq> CHR ''<'') (spec_strip s)))"
    by (simp only: stripHtmlTags_string replaceTags_spec_strip)
  have closed: "CHR ''<'' \<notin> set (spec_strip s) \<longrightarrow>
      stripHtmlTags (JStr s) = Inr (trim (spec_strip s))"
    by (simp add: stripHtmlTags_string replaceTags_closed)
  have plain: "CHR ''<'' \<notin> set s \<longrightarrow> stripHtmlTags (JStr s) = Inr (trim s)"
    by (simp add: stripHtmlTags_string replaceTags_plain)
  have "replaceTags ''<p>Hello <b>World</b></p>'' = ''Hello World''"
    by (simp add: skipTag_def)
  then have example: "stripHtmlTags (JStr ''<p>Hello <b>World</b></p>'') = Inr ''Hello World''"
    by (simp add: stripHtmlTags_string trim_def isWhiteSpace_def)
  show ?thesis
    using absent every closed plain example by blast
qed

theorem stripHtmlTags_contract_witness:
  "CHR ''<'' \<notin> set (spec_strip '' <i>a</i> > b '')
   \<and> stripHtmlTags (JStr '' <i>a</i> > b '') = Inr ''a > b''
   \<and> CHR ''<'' \<notin> set '' 1 > 0 ''
   \<and> stripHtmlTags (JStr '' 1 > 0 '') = Inr ''1 > 0''"
proof -
  have tagged: "spec_strip '' <i>a</i> > b '' = '' a > b ''"
    by (simp add: skipTag_def)
  from stripHtmlTags_contract [of "'' <i>a</i> > b ''"]
    stripHtmlTags_contract [of "'' 1 > 0 ''"] tagged
  show ?thesis
    by (simp add: trim_def isWhiteSpace_def)
qed

text \<open>
  The claim as stated fails on a text with a \<^verbatim>\<open><\<close> that is not markup: the
  specification's removal finds nothing to remove in \<^verbatim>\<open>1 < 2\<close> and the text is already
  trimmed, but the sanitizer returns \<^verbatim>\<open>1\<close>.
\<close>

theorem stripHtmlTags_contract_counterexample:
  "spec_strip ''1 < 2'' = ''1 < 2''
   \<and> trim ''1 < 2'' = ''1 < 2''
   \<and> stripHtmlTags (JStr ''1 < 2'') = Inr ''1''"
  by (simp add: stripHtmlTags_def skipTag_def trim_def isWhiteSpace_def)

text \<open>
  Claim C10.  The sanitizer is idempotent on every string: its result \<open>r\<close> contains no
  \<^verbatim>\<open><\<close> and is already trimmed, and sanitizing \<open>r\<close> again gives \<open>r\<close>.
\<close>

theorem stripHtmlTags_idempotent:
  "\<exists>r. stripHtmlTags (JStr s) = Inr r \<and> stripHtmlTags (JStr r) = Inr r
       \<and> CHR ''<'' \<notin> set r \<and> trim r = r"
proof -
  define r where "r = trim (replaceTags s)"
  have no_lt: "CHR ''<'' \<notin> set r"
    unfolding r_def using set_trim [of "replaceTags s"] replaceTags_no_lt [of s] by blast
  have trimmed: "trim r = r"
    unfolding r_def by (rule trim_idem)
  have first: "stripHtmlTags (JStr s) = Inr r"
    by (simp add: stripHtmlTags_string r_def)
  have "stripHtmlTags (JStr r) = Inr (trim (replaceTags r))"
    by (rule stripHtmlTags_string)
  also have "\<dots> = Inr r"
    using no_lt trimmed by (simp add: replaceTags_plain)
  finally show ?thesis
    using first no_lt trimmed by blast
qed

theorem stripHtmlTags_idempotent_witness:
  "stripHtmlTags (JStr '' <i>a < b</i> '') = Inr ''a''
   \<and> stripHtmlTags (JStr ''a'') = Inr ''a''"
  using stripHtmlTags_idempotent [of "'' <i>a < b</i> ''"]
  by (simp add: stripHtmlTags_string skipTag_def trim_def isWhiteSpace_def)

section \<open>Properties of the item classifier\<close>

lemma thenE_eq_Inr: "thenE m f = Inr y \<longleftrightarrow> (\<exists>x. m = Inr x \<and> f x = Inr y)"
  by (cases m) (simp_all add: thenE_def)

lemma getp_JStr_truthy: "getp f k = JStr s \<Longrightarrow> truthy f"
  by (cases f) simp_all

lemma oprop_getp: "oprop v k = getp v k"
  by (cases v) (simp_all add: oprop_def)

subsection \<open>Score resolution\<close>

lemma find_fields_server:
  "find (\<lambda>f. getp f k = JStr s) (if isArray v then elems v else [v])
   = find (\<lambda>f. getp f k = JStr s) (listNormalize v)"
  by (cases v) (simp_all add: listNormalize_def)

lemma find_fields_index:
  "find (\<lambda>f. getp f k = JStr s) (if isArray v then elems v else filter truthy [v])
   = find (\<lambda>f. getp f k = JStr s) (listNormalize v)"
  by (cases v) (simp_all add: listNormalize_def)

lemma setvar_value:
  "(if truthy (getp rc ''setvar'')
    then nc (getp (getp rc ''setvar'') ''val'') (JStr ''N/A'')
    else JStr ''N/A'') = nc (getp (getp rc ''setvar'') ''val'') (JStr ''N/A'')"
  by (cases "getp rc ''setvar''") (simp_all add: nc_def)

lemma fallback_score:
  "(let resprocessing = getp item ''resprocessing''
    in if truthy resprocessing \<and> truthy (getp resprocessing ''respcondition'') then
         let respcondition =
               (if isArray (getp resprocessing ''respcondition'')
                then idx0 (getp resprocessing ''respcondition'')
                else getp resprocessing ''respcondition'')
         in if truthy (getp respcondition ''setvar'')
            then nc (getp (getp respcondition ''setvar'') ''val'') (JStr ''N/A'')
            else JStr ''N/A''
       else JStr ''N/A'')
   = (case listNormalize (getp (getp item ''resprocessing'') ''respcondition'') of
        [] \<Rightarrow> JStr ''N/A''
      | respcondition # _ \<Rightarrow>
          nc (getp (getp respcondition ''setvar'') ''val'') (JStr ''N/A''))"
proof (cases "getp (getp item ''resprocessing'') ''respcondition''")
  case JUndef
  then show ?thesis
    by (simp add: listNormalize_def)
next
  case (JStr s)
  then have "truthy (getp item ''resprocessing'')"
    by (rule getp_JStr_truthy)
  with JStr show ?thesis
    by (simp add: listNormalize_def nc_def Let_def)
next
  case (JArr xs)
  then have "truthy (getp item ''resprocessing'')"
    by (cases "getp item ''resprocessing''") simp_all
  with JArr show ?thesis
    by (cases xs) (simp_all add: listNormalize_def setvar_value Let_def nc_def)
next
  case (JObj kvs)
  then have "truthy (getp item ''resprocessing'')"
    by (cases "getp item ''resprocessing''") simp_all
  with JObj show ?thesis
    by (simp add: listNormalize_def setvar_value Let_def)
qed

lemma resolveScore_code:
  assumes "find (\<lambda>f. getp f ''fieldlabel'' = JStr ''cc_weighting'') flds
           = find (\<lambda>f. getp f ''fieldlabel'' = JStr ''cc_weighting'')
               (listNormalize (metadataField item))"
  shows "resolveScore flds item = code_score item"
proof (cases "find (\<lambda>f. getp f ''fieldlabel'' = JStr ''cc_weighting'') flds")
  case None
  with assms show ?thesis
    unfolding resolveScore_def code_score_def oprop_getp
    by (simp add: fallback_score)
next
  case (Some f)
  then have "getp f ''fieldlabel'' = JStr ''cc_weighting''"
    by (auto simp: find_Some_iff)
  then have "truthy f"
    by (rule getp_JStr_truthy)
  with Some assms show ?thesis
    unfolding resolveScore_def code_score_def oprop_getp
    by simp
qed

lemma resolveScore_server:
  "resolveScore (if isArray (metadataField item) then elems (metadataField item)
                 else [metadataField item]) item = code_score item"
  by (rule resolveScore_code) (rule find_fields_server)

lemma resolveScore_index:
  "resolveScore (if isArray (metadataField item) then elems (metadataField item)
                 else filter truthy [metadataField item]) item = code_score item"
  by (rule resolveScore_code) (rule find_fields_index)

lemma processItem_score:
  "processItem item = Inr q \<Longrightarrow>
   score q = (if responseType q = ''Essay'' then JStr ''Manual grading'' else code_score item)"
  unfolding processItem_def Let_def resolveScore_server
  by (auto simp: thenE_eq_Inr split: if_splits)

lemma processItem_index_score:
  "processItem_index item = Inr q \<Longrightarrow>
   score q = (if responseType q = ''Essay'' then JStr ''Manual grading'' else code_score item)"
  unfolding processItem_index_def Let_def resolveScore_index
  by (auto simp: thenE_eq_Inr split: if_splits)

text \<open>
  Where a weighting field is present the code and the specification agree; so they do
  when there is no response condition.
\<close>

lemma code_score_weighting:
  "find (\<lambda>f. getp f ''fieldlabel'' = JStr ''cc_weighting'')
     (listNormalize (metadataField item)) = Some f \<Longrightarrow>
   code_score item = spec_score item"
  by (simp add: code_score_def spec_score_def)

lemma code_score_no_respcondition:
  "getp (getp item ''resprocessing'') ''respcondition'' = JUndef \<Longrightarrow>
   code_score item = spec_score item"
  by (simp add: code_score_def spec_score_def listNormalize_def split: option.split)

text \<open>
  A set-variable parsed from \<^verbatim>\<open><setvar action="Set" varname="SCORE">100</setvar>\<close>
  has no property \<^verbatim>\<open>val\<close>: without a weighting field the code answers \<^verbatim>\<open>"N/A"\<close>
  whatever the set-variable holds.
\<close>

lemma code_score_standard_setvar:
  assumes "find (\<lambda>f. getp f ''fieldlabel'' = JStr ''cc_weighting'')
             (listNormalize (metadataField item)) = None"
    and "listNormalize (getp (getp item ''resprocessing'') ''respcondition'') = rc # rcs"
    and "getp (getp rc ''setvar'') ''val'' = JUndef"
  shows "code_score item = JStr ''N/A''"
  using assms by (simp add: code_score_def nc_def)

text \<open>
  Claim C2 (not met by the code).  For the item without weighting whose response
  condition sets the score 100, the resolution of the specification gives 100, and
  server.js answers the score \<^verbatim>\<open>"N/A"\<close>, for a single response condition and for a
  list of them: it reads the property \<^verbatim>\<open>val\<close> of the set-variable, not its text.  With
  a weighting field the score is the field's entry, as claimed.
\<close>

theorem score_fallback_reads_val:
  "spec_score scoredItem = JStr ''100''
   \<and> map_sum id score (processItem scoredItem) = Inr (JStr ''N/A'')
   \<and> spec_score fibItemList = JStr ''100''
   \<and> map_sum id score (processItem fibItemList) = Inr (JStr ''N/A'')
   \<and> spec_score mcItemList = JStr ''1''
   \<and> map_sum id score (processItem mcItemList) = Inr (JStr ''1'')"
  by code_simp

subsection \<open>Essay items\<close>

lemma essayField_Inr: "essayField f = Inr b \<Longrightarrow> b = essayProfile f"
  by (auto simp: essayField_def essayProfile_def dot_def thenE_def split: if_splits)

lemma essayProfile_truthy: "essayProfile f \<Longrightarrow> truthy f"
  by (auto simp: essayProfile_def intro: getp_JStr_truthy)

lemma findE_essay:
  "findE essayField xs = Inr found \<Longrightarrow> list_ex essayProfile xs \<Longrightarrow> truthy found"
proof (induction xs)
  case Nil
  then show ?case by simp
next
  case (Cons x xs)
  show ?case
  proof (cases "essayField x")
    case (Inl e)
    with Cons.prems show ?thesis by simp
  next
    case (Inr b)
    then have b: "b = essayProfile x"
      by (rule essayField_Inr)
    show ?thesis
    proof (cases b)
      case True
      with Inr Cons.prems b show ?thesis
        by (simp add: essayProfile_truthy)
    next
      case False
      with Inr Cons.prems b Cons.IH show ?thesis
        by simp
    qed
  qed
qed

lemma isEssay_declared:
  assumes "isEssay v = Inr e" and "list_ex essayProfile (listNormalize v)"
  shows "e"
proof (cases v)
  case (JArr xs)
  with assms show ?thesis
    by (auto simp: isEssay_def listNormalize_def thenE_eq_Inr dest: findE_essay)
qed (use assms in \<open>auto simp: isEssay_def listNormalize_def oprop_getp essayProfile_def\<close>)

lemma processItem_essay:
  assumes "processItem item = Inr q" and "\<not> hasRenderChoice item"
    and "\<not> hasResponseStr item" and "declaresEssay item"
  shows "responseType q = ''Essay'' \<and> correctAnswer q = JStr ''Manual scoring required.''
         \<and> score q = JStr ''Manual grading''"
  using assms
  unfolding processItem_def Let_def hasRenderChoice_def hasResponseStr_def declaresEssay_def
  by (auto simp: thenE_eq_Inr dest: isEssay_declared split: if_splits)

lemma profileLabel_Inr:
  "profileLabel f = Inr b \<Longrightarrow> b = (getp f ''fieldlabel'' = JStr ''cc_profile'')"
  by (auto simp: profileLabel_def dot_def thenE_def split: if_splits)

lemma findE_profile:
  "findE profileLabel xs = Inr r \<Longrightarrow>
   find (\<lambda>f. getp f ''fieldlabel'' = JStr ''cc_profile'') xs = Some f \<Longrightarrow> r = f"
proof (induction xs)
  case Nil
  then show ?case by simp
next
  case (Cons x xs)
  show ?case
  proof (cases "profileLabel x")
    case (Inl e)
    with Cons.prems show ?thesis by simp
  next
    case (Inr b)
    then have "b = (getp x ''fieldlabel'' = JStr ''cc_profile'')"
      by (rule profileLabel_Inr)
    with Inr Cons show ?thesis
      by (cases b) simp_all
  qed
qed

lemma processItem_index_essay:
  assumes "processItem_index item = Inr q" and "firstProfile item = Some f"
    and "getp f ''fieldentry'' = JStr ''cc.essay.v0p1''"
  shows "responseType q = ''Essay'' \<and> correctAnswer q = JStr ''Manual scoring required.''
         \<and> score q = JStr ''Manual grading''"
proof -
  let ?flds = "if isArray (metadataField item) then elems (metadataField item)
               else filter truthy [metadataField item]"
  have found: "find (\<lambda>f. getp f ''fieldlabel'' = JStr ''cc_profile'') ?flds = Some f"
    using assms(2) unfolding firstProfile_def by (simp only: find_fields_index)
  then have label: "getp f ''fieldlabel'' = JStr ''cc_profile''"
    by (auto simp: find_Some_iff)
  then have f: "truthy f" "\<not> isArray f"
    by (cases f; simp)+
  obtain pf where pf: "findE profileLabel ?flds = Inr pf"
    using assms(1) unfolding processItem_index_def Let_def
    by (auto simp: thenE_eq_Inr)
  have "pf = f"
    using pf found by (rule findE_profile)
  with pf assms(1,3) label f show ?thesis
    unfolding processItem_index_def Let_def
    by (auto simp: thenE_eq_Inr isEssay_def oprop_getp)
qed

text \<open>
  In server.js the test for the free-text structure comes before the essay test, and
  an essay answer is entered through that structure: no item with \<^verbatim>\<open>response_str\<close> is
  ever classified as an essay.
\<close>

lemma processItem_response_str_not_essay:
  assumes "hasResponseStr item" and "processItem item = Inr q"
  shows "responseType q \<noteq> ''Essay''"
  using assms unfolding processItem_def Let_def hasResponseStr_def
  by (auto simp: thenE_eq_Inr split: if_splits)

text \<open>
  Claim C3 (not met by server.js).  The item that declares
  \<^verbatim>\<open>cc_profile = cc.essay.v0p1\<close> and a weighting of 10 and carries the \<^verbatim>\<open>response_str\<close>
  element of an essay is classified by server.js as a fill-in-the-blank question with
  correct answer \<^verbatim>\<open>"N/A"\<close> and score 10, not as an essay with \<^verbatim>\<open>"Manual grading"\<close>.
  The classifier of api/index.js, which reads the profile first, makes it an essay; so
  does server.js for the same item without \<^verbatim>\<open>response_str\<close>.
\<close>

theorem essay_with_response_str:
  "declaresEssay essayItemStr
   \<and> processItem essayItemStr =
     Inr \<lparr>itemIdentifier = JStr ''q3'', questionText = JStr ''Capital of France?'',
          responseType = ''Fill-in-the-Blank'', options = [],
          correctAnswer = JStr ''N/A'', score = JStr ''10''\<rparr>
   \<and> processItem_index essayItemStr =
     Inr \<lparr>itemIdentifier = JStr ''q3'', questionText = JStr ''Capital of France?'',
          responseType = ''Essay'', options = [],
          correctAnswer = JStr ''Manual scoring required.'',
          score = JStr ''Manual grading''\<rparr>
   \<and> processItem essayItem = Inr essayQuestion"
  by code_simp

subsection \<open>Response conditions that are not a list\<close>

text \<open>
  With \<^verbatim>\<open>explicitArray: false\<close> a single response condition is an object.  The score
  resolution reads it through \<^verbatim>\<open>Array.isArray\<close>; the two answer extractions do not.
\<close>

lemma findRespcondition_single:
  "getp (getp item ''resprocessing'') ''respcondition'' = JObj kvs \<Longrightarrow>
   findRespcondition item callback = Inl TypeError"
  by (simp add: findRespcondition_def oprop_getp)

lemma correctAnswerMC_single:
  "getp (getp item ''resprocessing'') ''respcondition'' = JObj kvs \<Longrightarrow>
   correctAnswerMC item opts = Inl TypeError"
  by (simp add: correctAnswerMC_def findRespcondition_single thenE_def)

lemma processItem_single_respcondition:
  assumes "hasRenderChoice item"
    and "getp (getp item ''resprocessing'') ''respcondition'' = JObj kvs"
  shows "\<exists>e. processItem item = Inl e"
proof (cases "processItem item")
  case (Inl e)
  then show ?thesis
    by simp
next
  case (Inr q)
  with assms show ?thesis
    unfolding processItem_def Let_def hasRenderChoice_def
    by (auto simp: thenE_eq_Inr correctAnswerMC_single)
qed

lemma correctAnswerFIB_single:
  assumes "getp (getp item ''resprocessing'') ''respcondition'' = JObj kvs"
    and "map_of kvs ''0'' = None"
  shows "correctAnswerFIB item = JStr ''N/A''"
  using assms by (simp add: correctAnswerFIB_def oprop_getp oidx0_def oprop_def nc_def)

text \<open>
  On a list of response conditions both extractions do what the specification says:
  the first condition with a set-variable gives the trimmed identifier, which is looked
  up among the options; the first condition gives the fill-in-the-blank answer.
\<close>

lemma findE_hasSetvar:
  "JUndef \<notin> set conds \<Longrightarrow>
   findE hasSetvar conds =
     Inr (case find (\<lambda>c. truthy (getp c ''setvar'')) conds of None \<Rightarrow> JUndef | Some c \<Rightarrow> c)"
  by (induction conds) (auto simp: hasSetvar_def dot_def thenE_def)

lemma correctAnswerMC_list_none:
  assumes "getp (getp item ''resprocessing'') ''respcondition'' = JArr conds"
    and "JUndef \<notin> set conds"
    and "find (\<lambda>c. truthy (getp c ''setvar'')) conds = None"
  shows "correctAnswerMC item opts = Inr (JObj [(''id'', JStr ''N/A''), (''text'', JStr ''N/A'')])"
  using assms
  by (simp add: correctAnswerMC_def findRespcondition_def oprop_getp findE_hasSetvar thenE_def)

lemma correctAnswerMC_list_some:
  assumes "getp (getp item ''resprocessing'') ''respcondition'' = JArr conds"
    and "JUndef \<notin> set conds"
    and "find (\<lambda>c. truthy (getp c ''setvar'')) conds = Some c"
    and "getp (getp (getp c ''conditionvar'') ''varequal'') ''#'' = JStr s"
  shows "correctAnswerMC item opts =
     Inr (JObj [(''id'', JStr (trim s)),
                (''text'', (case find (\<lambda>option. optionIdentifier option = JStr (trim s)) opts of
                              None \<Rightarrow> JStr ''N/A''
                            | Some ch \<Rightarrow> nc (optionText ch) (JStr ''N/A'')))])"
proof -
  have "truthy (getp c ''setvar'')"
    using assms(3) by (auto simp: find_Some_iff)
  then have "truthy c"
    by (cases c) simp_all
  with assms show ?thesis
    by (simp add: correctAnswerMC_def findRespcondition_def oprop_getp findE_hasSetvar
        thenE_def nc_def Let_def)
qed

lemma correctAnswerFIB_list:
  "getp (getp item ''resprocessing'') ''respcondition'' = JArr (c # cs) \<Longrightarrow>
   correctAnswerFIB item
     = nc (getp (getp (getp c ''conditionvar'') ''varequal'') ''#'') (JStr ''N/A'')"
  by (simp add: correctAnswerFIB_def oprop_getp oidx0_def)

text \<open>
  Claim C1 (not met by the code). For the multiple-choice item with options A (Paris)
  and B (Rome) and the single response condition that equates to A, server.js and
  the classifier of api/index.js throw a TypeError instead of answering \<^verbatim>\<open>{id: "A", text: "Paris"}\<close>;
  they give that answer when the response conditions are a list.
\<close>

theorem correct_answer_single_respcondition:
  "processItem mcItemSingle = Inl TypeError
   \<and> processItem_index mcItemSingle = Inl TypeError
   \<and> processItem mcItemList = Inr mcQuestion
   \<and> processItem_index mcItemList = Inr mcQuestion"
  by code_simp

text \<open>
  Claim C6 (not met by the code).  For the fill-in-the-blank item whose single
  response condition equates to Paris, server.js and the classifier of api/index.js answer \<^verbatim>\<open>"N/A"\<close>;
  they answer Paris when the response conditions are a list.
\<close>

theorem fib_answer_single_respcondition:
  "map_sum id correctAnswer (processItem fibItemSingle) = Inr (JStr ''N/A'')
   \<and> map_sum id correctAnswer (processItem_index fibItemSingle) = Inr (JStr ''N/A'')
   \<and> map_sum id correctAnswer (processItem fibItemList) = Inr (JStr ''Paris'')
   \<and> map_sum id correctAnswer (processItem_index fibItemList) = Inr (JStr ''Paris'')"
  by code_simp

subsection \<open>Defaults of the texts\<close>

text \<open>
  \<^verbatim>\<open>stripHtmlTags\<close> returns a string for every argument it accepts, so the
  \<^verbatim>\<open>?? "N/A"\<close> behind each call never applies: an absent text becomes the empty
  string.
\<close>

lemma questionText_absent:
  assumes "processItem item = Inr q"
    and "oprop (oprop (oprop (getp item ''presentation'') ''material'') ''mattext'') ''#''
         = JUndef"
  shows "questionText q = JStr ''''"
  using assms unfolding processItem_def Let_def
  by (auto simp: thenE_eq_Inr stripHtmlTags_def nc_def split: if_splits)

lemma extractChoices_text:
  "extractChoices cs = Inr opts \<Longrightarrow> \<forall>c \<in> set opts. \<exists>t. optionText c = JStr t"
proof (induction cs arbitrary: opts)
  case Nil
  then show ?case by simp
next
  case (Cons c cs)
  then show ?case
    by (auto simp: nc_def split: sum.splits)
qed

text \<open>
  Claim C4 (not met by the code).  An item without presentation gets the question text
  \<^verbatim>\<open>""\<close>, not \<^verbatim>\<open>"N/A"\<close>, and a choice without material gets the text \<^verbatim>\<open>""\<close>; the
  identifier of a choice without \<^verbatim>\<open>ident\<close> is \<^verbatim>\<open>"N/A"\<close> as claimed.
\<close>

theorem absent_text_is_empty:
  "map_sum id questionText (processItem bareItem) = Inr (JStr '''')
   \<and> map_sum id options (processItem bareChoicesItem) =
       Inr [\<lparr>optionIdentifier = JStr ''A'', optionText = JStr ''''\<rparr>,
            \<lparr>optionIdentifier = JStr ''N/A'', optionText = JStr ''''\<rparr>]"
  by code_simp

subsection \<open>Response types\<close>

lemma processItem_responseType:
  "processItem item = Inr q \<Longrightarrow>
   responseType q \<in> {''Multiple Choice'', ''Fill-in-the-Blank'', ''Essay'', ''Unknown''}"
  unfolding processItem_def Let_def
  by (auto simp: thenE_eq_Inr split: if_splits)

lemma processItem_index_responseType:
  "processItem_index item = Inr q \<Longrightarrow>
   responseType q \<in> {''Multiple Choice'', ''Fill-in-the-Blank'', ''Essay'', ''Unknown''}"
  unfolding processItem_index_def Let_def
  by (auto simp: thenE_eq_Inr split: if_splits)

lemma processItem_upload_responseType:
  "processItem_upload item = Inr q \<Longrightarrow>
   responseType q = (if hasRenderChoice item then ''Multiple Choice'' else ''N/A'')"
  unfolding processItem_upload_def Let_def hasRenderChoice_def
  by (auto simp: thenE_eq_Inr split: if_splits)

text \<open>
  Claim C7 (not met by api/upload.js).  For the item with no structure and no profile,
  api/upload.js leaves the response type at the placeholder \<^verbatim>\<open>"N/A"\<close>; server.js and
  the classifier of api/index.js give \<^verbatim>\<open>"Unknown"\<close>.
\<close>

theorem upload_leaves_placeholder:
  "map_sum id responseType (processItem_upload bareItem) = Inr ''N/A''
   \<and> map_sum id responseType (processItem bareItem) = Inr ''Unknown''
   \<and> map_sum id responseType (processItem_index bareItem) = Inr ''Unknown''"
  by code_simp

section \<open>Properties of the manifest resolution and of the handlers\<close>

subsection \<open>Assessment resources\<close>

lemma filterE_isAssessment:
  "JUndef \<notin> set xs \<Longrightarrow>
   filterE isAssessment xs =
     Inr (filter (\<lambda>r. getp r ''type'' = JStr ''imsqti_xmlv1p2/imscc_xmlv1p3/assessment'') xs)"
  by (induction xs) (auto simp: isAssessment_def dot_def thenE_def)

text \<open>
  The resolution code of api/index.js list-normalizes the resources and keeps those of
  the assessment type, without an error, on a tree that has a \<^verbatim>\<open>resources\<close> element
  under \<^verbatim>\<open>manifest\<close>.
\<close>

lemma quizFiles_index_normalized:
  assumes "getp (getp manifest ''manifest'') ''resources'' = resources"
    and "resources \<noteq> JUndef"
    and "JUndef \<notin> set (listNormalize (getp resources ''resource''))"
  shows "quizFiles_index manifest =
     Inr (filter (\<lambda>r. getp r ''type'' = JStr ''imsqti_xmlv1p2/imscc_xmlv1p3/assessment'')
            (listNormalize (getp resources ''resource'')))"
proof -
  let ?r = "getp resources ''resource''"
  let ?xs = "if isArray ?r then elems ?r else filter truthy [?r]"
  have "JUndef \<notin> set ?xs"
    using assms(3) by (cases ?r) (simp_all add: listNormalize_def)
  then have "filterE isAssessment ?xs =
      Inr (filter (\<lambda>r. getp r ''type'' = JStr ''imsqti_xmlv1p2/imscc_xmlv1p3/assessment'') ?xs)"
    by (rule filterE_isAssessment)
  moreover have "filter (\<lambda>r. getp r ''type'' = JStr ''imsqti_xmlv1p2/imscc_xmlv1p3/assessment'') ?xs
      = filter (\<lambda>r. getp r ''type'' = JStr ''imsqti_xmlv1p2/imscc_xmlv1p3/assessment'')
          (listNormalize ?r)"
    by (cases ?r) (simp_all add: listNormalize_def)
  moreover have "getp manifest ''manifest'' \<noteq> JUndef"
    using assms(1,2) by (cases "getp manifest ''manifest''") auto
  ultimately show ?thesis
    using assms(1,2)
    by (simp add: quizFiles_index_def resourceField_def dot_def thenE_def filterMethod_def)
qed

text \<open>In api/index.js a resource without a reference path is passed over.\<close>

lemma collectQuizzes_index_skip:
  "\<not> truthy (firstHref resource) \<Longrightarrow>
   collectQuizzes_index process dir (resource # rest) = collectQuizzes_index process dir rest"
  by simp

text \<open>
  server.js calls \<^verbatim>\<open>filter\<close> on the resources as they are, and reads
  \<^verbatim>\<open>resource.file.href\<close> of every assessment resource.
\<close>

lemma quizFiles_server_single:
  "getp (getp (getp manifest ''manifest'') ''resources'') ''resource'' = JObj kvs \<Longrightarrow>
   quizFiles_server manifest = Inl TypeError"
  by (cases "getp manifest ''manifest''")
    (simp_all add: quizFiles_server_def resourceField_def dot_def thenE_def filterMethod_def)

lemma collectQuizzes_no_file:
  "getp resource ''file'' = JUndef \<Longrightarrow>
   collectQuizzes process dir (resource # rest) = Inl TypeError"
  by (simp add: dot_def)

text \<open>
  Claim C5 (not met by server.js).  For the manifest whose resources element holds a
  single resource that is not an assessment, server.js fails (the request ends with
  status 500) where the claim promises the empty list of quizzes; the same happens
  for a manifest whose assessment resource has no file entry.  The resolution code of
  api/index.js and of api/upload.js does normalise the single resource, and
  api/upload.js answers with the empty list; the handler of api/index.js answers 500
  as well, because its parser hands it a tree without the key \<^verbatim>\<open>manifest\<close>.
\<close>

theorem single_resource_fails_in_server:
  "quizFiles_server singleResourceManifest = Inl TypeError
   \<and> fst (handler_server (packageEnv singleResourceManifest) uploadRequest stagedFs)
       = Failure 500 ''Error processing the file.''
   \<and> fst (handler_server (packageEnv noFileManifest) uploadRequest stagedFs)
       = Failure 500 ''Error processing the file.''
   \<and> quizFiles_index singleResourceManifest = Inr []
   \<and> quizFiles_upload singleResourceManifest = Inr []
   \<and> fst (handler_upload (packageEnv singleResourceManifest) uploadRequest emptyFs)
       = Result (JStr ''Geography'') []
   \<and> fst (handler_index (packageEnv singleResourceManifest) uploadRequest stagedFs)
       = Failure 500 ''Error processing the file.''"
  by code_simp

subsection \<open>The lenient parser of api/index.js\<close>

text \<open>
  Every name that the code of api/index.js looks up is written in lower case, and the
  tree of the lenient parser has no key with a lower-case letter: every lookup at the
  top of the tree answers \<^verbatim>\<open>undefined\<close>.  So \<^verbatim>\<open>processXmlFile\<close> of api/index.js never
  returns a quiz, its manifest resolution always throws, and its handler never
  answers with a result.
\<close>

definition lowerCase :: "string \<Rightarrow> bool" where
  "lowerCase k = list_ex (\<lambda>c. 97 \<le> (of_char c :: nat) \<and> (of_char c :: nat) \<le> 122) k"

lemma upperUnit_no_lower:
  "c' \<in> set (upperUnit c) \<Longrightarrow> \<not> (97 \<le> (of_char c' :: nat) \<and> (of_char c' :: nat) \<le> 122)"
  by (auto simp: upperUnit_def Let_def split: if_splits)

lemma toUpperCase_no_lower: "\<not> lowerCase (toUpperCase s)"
  using upperUnit_no_lower by (auto simp: lowerCase_def toUpperCase_def list_ex_iff)

lemma getp_looseCase: "lowerCase k \<Longrightarrow> getp (looseCase t) k = JUndef"
proof (cases t)
  case (JObj kvs)
  assume k: "lowerCase k"
  have "k \<notin> fst ` set (map (\<lambda>(k, v). (toUpperCase k, looseCase v)) kvs)"
    using k toUpperCase_no_lower by (auto simp: image_iff)
  then have "map_of (map (\<lambda>(k, v). (toUpperCase k, looseCase v)) kvs) k = None"
    by (simp add: map_of_eq_None_iff)
  with JObj show ?thesis by simp
qed simp_all

lemma looseCase_undef: "looseCase t = JUndef \<longleftrightarrow> t = JUndef"
  by (cases t) simp_all

lemma quizOf_looseCase:
  "quizOf classify a b (looseCase t) = (if t = JUndef then Inl TypeError else Inr None)"
  by (simp add: quizOf_def dot_def thenE_def looseCase_undef getp_looseCase lowerCase_def)

lemma processXmlFile_index_no_quiz: "processXmlFile_index env p \<noteq> Inr (Some q)"
  by (auto simp: processXmlFile_index_def parseLoose_def thenE_eq_Inr quizOf_looseCase
      split: if_splits)

lemma quizFiles_index_looseCase: "quizFiles_index (looseCase t) = Inl TypeError"
  by (simp add: quizFiles_index_def resourceField_def dot_def thenE_def getp_looseCase
      lowerCase_def)

lemma extract_index_fails: "\<exists>e. extract_index env dir = Inl e"
proof (cases "extract_index env dir")
  case (Inr r)
  then show ?thesis
    by (auto simp: extract_index_def parseLoose_def thenE_eq_Inr quizFiles_index_looseCase)
qed simp

lemma handler_index_no_result: "fst (handler_index env req fs) \<noteq> Result subject quizzes"
proof -
  have "thenE m (\<lambda>_. extract_index env dir) \<noteq> Inr r" for m :: "jserr + unit" and dir r
    using extract_index_fails [of env dir] by (auto simp: thenE_eq_Inr)
  then show ?thesis
    by (auto simp: handler_index_def handler_with_def Let_def split: option.splits sum.splits)
qed

subsection \<open>Scratch files\<close>

text \<open>
  server.js and api/index.js: when the two removals succeed, the staged file is gone
  after every request that carried one, the temporary directory of the request is
  gone, and no other directory has appeared.
\<close>

lemma cleanup_uploads:
  "unlink env p \<Longrightarrow> p \<notin> set (uploads (cleanup env p t fs))"
  by (auto simp: cleanup_def Let_def split: option.splits)

lemma cleanup_tmpdirs:
  "rm env d \<Longrightarrow> set (tmpdirs (cleanup env p (Some d) fs)) = set (tmpdirs fs) - {d}"
  by (auto simp: cleanup_def Let_def)

lemma cleanup_tmpdirs_none: "tmpdirs (cleanup env p None fs) = tmpdirs fs"
  by (simp add: cleanup_def Let_def)

lemma handler_with_releases:
  assumes "reqFile req = Some p" and "unlink env p" and "\<And>d. rm env d"
  shows "p \<notin> set (uploads (snd (handler_with extract env req fs)))
     \<and> set (tmpdirs (snd (handler_with extract env req fs)))
       = (case mkdtemp env of Inl e \<Rightarrow> set (tmpdirs fs) | Inr d \<Rightarrow> set (tmpdirs fs) - {d})"
proof (cases "mkdtemp env")
  case (Inl e)
  with assms show ?thesis
    by (simp add: handler_with_def cleanup_uploads cleanup_tmpdirs_none)
next
  case (Inr d)
  with assms show ?thesis
    by (simp add: handler_with_def Let_def cleanup_uploads cleanup_tmpdirs)
qed

text \<open>
  api/upload.js: a request that reaches the creation of the temporary directory
  leaves the staged file and the directory behind, whatever its outcome.
\<close>

lemma handler_upload_keeps:
  assumes "reqMethod req = ''POST''" and "runMiddleware env = Inr u"
    and "reqFile req = Some p" and "mkdtemp env = Inr d"
  shows "p \<in> set (uploads (snd (handler_upload env req fs)))
     \<and> d \<in> set (tmpdirs (snd (handler_upload env req fs)))"
  using assms
  by (simp add: handler_upload_def Let_def split: sum.split prod.split)

text \<open>
  Claim C9 (not met by api/upload.js).  After a successful request the handler of
  api/upload.js has left the staged upload file and the temporary directory in place;
  the handler of server.js has removed both.
\<close>

theorem upload_handler_leaves_scratch:
  "handler_upload (packageEnv webResourcesManifest) uploadRequest emptyFs
     = (Result (JStr ''Geography'') [],
        \<lparr>uploads = [''/tmp/upload-7f''], tmpdirs = [''/tmp/imscc-a1'']\<rparr>)
   \<and> handler_server (packageEnv webResourcesManifest) uploadRequest stagedFs
     = (Result (JStr ''Geography'') [], \<lparr>uploads = [], tmpdirs = []\<rparr>)"
  by code_simp

end

